theory Spec2Isabelle
  imports Main "HOL-Library.Char_ord" "HOL-Library.List_Lexorder"
begin

section \<open>The Go library functions the program calls\<close>

text \<open>
  A Go string is a sequence of bytes; it is modelled as a \<open>string\<close> (a list of 8-bit
  characters). The library functions of package \<open>strings\<close> that the program calls
  are written out from their documented behaviour. Whitespace is the set of one-byte
  white space characters of \<open>unicode.IsSpace\<close>: tab, line feed, vertical tab, form
  feed, carriage return and space. The white space runes beyond ASCII (U+0085, U+00A0,
  U+1680, U+2000 and so on) are sequences of several bytes in UTF-8; the model reads each of
  their bytes as an ordinary character, so it is exact on ASCII text.
\<close>

definition isSpace :: "char \<Rightarrow> bool" where
  "isSpace c \<longleftrightarrow> c \<in> {CHR 0x09, CHR 0x0A, CHR 0x0B, CHR 0x0C, CHR 0x0D, CHR '' ''}"

text \<open>\<open>strings.TrimSpace\<close>: all leading and trailing white space removed.\<close>

definition TrimSpace :: "string \<Rightarrow> string" where
  "TrimSpace s = rev (dropWhile isSpace (rev (dropWhile isSpace s)))"

text \<open>\<open>strings.TrimRight(s, cutset)\<close>: all trailing characters of the cutset removed.\<close>

definition TrimRight :: "string \<Rightarrow> string \<Rightarrow> string" where
  "TrimRight s cutset = rev (dropWhile (\<lambda>c. c \<in> set cutset) (rev s))"

text \<open>
  \<open>strings.Fields\<close>: the maximal runs of characters that are not white space, in
  order; the empty list when the string holds white space only.
\<close>

function Fields :: "string \<Rightarrow> string list" where
  "Fields s =
     (case dropWhile isSpace s of
        [] \<Rightarrow> []
      | c # cs \<Rightarrow> takeWhile (\<lambda>x. \<not> isSpace x) (c # cs)
                 # Fields (dropWhile (\<lambda>x. \<not> isSpace x) (c # cs)))"
  by pat_completeness auto
termination
proof (relation "measure length")
  show "wf (measure length)" by simp
next
  fix s :: string and c cs
  assume a: "dropWhile isSpace s = c # cs"
  have "\<not> isSpace c" using a hd_dropWhile [of isSpace s] by auto
  hence "length (dropWhile (\<lambda>x. \<not> isSpace x) (c # cs)) \<le> length cs"
    by (simp add: length_dropWhile_le)
  moreover have "length (c # cs) \<le> length s"
    using a length_dropWhile_le [of isSpace s] by simp
  ultimately show "(dropWhile (\<lambda>x. \<not> isSpace x) (c # cs), s) \<in> measure length"
    by simp
qed

declare Fields.simps [simp del]

text \<open>\<open>strings.Join(elems, sep)\<close>: the elements with the separator between neighbours.\<close>

fun Join :: "string list \<Rightarrow> string \<Rightarrow> string" where
  "Join [] sep = []"
| "Join [x] sep = x"
| "Join (x # y # ys) sep = x @ sep @ Join (y # ys) sep"

text \<open>\<open>strings.Contains(s, substr)\<close>: some suffix of \<open>s\<close> starts with \<open>substr\<close>.\<close>

fun Contains :: "string \<Rightarrow> string \<Rightarrow> bool" where
  "Contains [] substr = (substr = [])"
| "Contains (c # cs) substr =
     (take (length substr) (c # cs) = substr \<or> Contains cs substr)"

text \<open>
  \<open>strings.Split(s, sep)\<close> for a separator of one character, the only kind the program
  passes: the pieces between the separators, always at least one piece.
\<close>

fun Split :: "string \<Rightarrow> char \<Rightarrow> string list" where
  "Split [] sep = [[]]"
| "Split (c # cs) sep =
     (if c = sep then [] # Split cs sep
      else (case Split cs sep of
              [] \<Rightarrow> [[c]]
            | p # ps \<Rightarrow> (c # p) # ps))"

text \<open>
  \<open>strings.ToLower\<close>: the letters A to Z are mapped to a to z, which adds 32 to the
  byte, that is, sets its bit of value 32. Go maps the runes
  beyond ASCII by the Unicode case tables; none of them has y, e, s, n or o as its lower
  case, so leaving their bytes unchanged answers every comparison with those words as Go
  does.
\<close>

definition toLowerChar :: "char \<Rightarrow> char" where
  "toLowerChar c =
     (if CHR ''A'' \<le> c \<and> c \<le> CHR ''Z''
      then (case c of Char b0 b1 b2 b3 b4 b5 b6 b7 \<Rightarrow> Char b0 b1 b2 b3 b4 True b6 b7)
      else c)"

definition ToLower :: "string \<Rightarrow> string" where
  "ToLower s = map toLowerChar s"

section \<open>Errors, output and the world outside the program\<close>

text \<open>
  One constructor for each error the program returns: the sentinel errors of the Go
  library, the errors the program builds with \<open>fmt.Errorf\<close>, the three errors package
  \<open>flag\<close> builds for a malformed command line, and the errors of the operating system.
\<close>

datatype error =
    EOF
  | ErrFieldCount
  | ErrHelp
  | ExitError nat
  | OSError string
  | UnknownCatID string
  | FieldRequired string
  | IsADirectory string
  | NoExtension
  | BadFlagSyntax string
  | FlagNotDefined string
  | InvalidBoolean string string

text \<open>
  What the program writes: a text, an error value printed on a line of its own, or the
  usage message with the flag defaults.
\<close>

datatype written = Text string | ErrorLine error | Usage

text \<open>
  The state the program changes. Standard input is the sequence of lines the terminal still
  has to deliver, each the text one read returns (the line with its terminator); reading
  from the empty sequence is the end of input. \<open>fzfRuns\<close> counts the starts of the
  selector process and \<open>renames\<close> lists the calls of \<open>os.Rename\<close>.
\<close>

record world =
  stdin :: "string list"
  stdout :: "written list"
  stderr :: "written list"
  fzfRuns :: nat
  renames :: "(string \<times> string) list"

record FileInfo =
  IsDir :: bool
  Name :: string

text \<open>
  What the program reads from its surroundings and does not change: the environment
  variables (\<open>os.Getenv\<close>, the empty string for an unset variable), the command line
  after the program name, whether standard output is a terminal, the records of the catalog
  file (or the error of opening or tokenising it), the result of looking up the selector
  executable, the result of running the selector (the error of \<open>cmd.Run\<close> and what the
  process wrote to its standard output), \<open>os.Stat\<close>, and the result of
  \<open>os.Rename\<close>.
\<close>

record sys =
  Getenv :: "string \<Rightarrow> string"
  Args :: "string list"
  IsTerminal :: bool
  csvFile :: "error + string list list"
  LookPath :: "error + string"
  cmdRun :: "string \<Rightarrow> error option \<times> string"
  Stat :: "string \<Rightarrow> error + FileInfo"
  Rename :: "string \<Rightarrow> string \<Rightarrow> error option"

section \<open>Package ucs: the category catalog and the filename\<close>

record Category =
  Category :: string
  SubCategory :: string
  CatID :: string
  CatShort :: string
  Synonyms :: string

record Filename =
  CatID :: string
  FXName :: string
  CreatorID :: string
  SourceID :: string
  UserData :: string

text \<open>
  \<open>Filename.Render\<close>: the four required segments, the user data appended when it is
  not empty, joined with the underscore, and the extension after that.
\<close>

definition segs :: "Filename \<Rightarrow> string list" where
  "segs f =
     (let segs = [Filename.CatID f, FXName f, CreatorID f, SourceID f]
      in if UserData f \<noteq> [] then segs @ [UserData f] else segs)"

definition Render :: "Filename \<Rightarrow> string \<Rightarrow> string" where
  "Render f ext = Join (segs f) ''_'' @ ext"


text \<open>
  \<open>csv.Reader.ReadAll\<close> with the reader's default \<open>FieldsPerRecord = 0\<close>, which
  the program does not change: the number of fields of the first record is required of every
  later record, and a record of another length fails the whole read with
  \<open>ErrFieldCount\<close>.
\<close>

definition ReadAll :: "string list list \<Rightarrow> error + string list list" where
  "ReadAll rows =
     (case rows of
        [] \<Rightarrow> Inr []
      | r # rs \<Rightarrow> if list_all (\<lambda>x. length x = length r) rs then Inr rows
                 else Inl ErrFieldCount)"

definition mkCategory :: "string list \<Rightarrow> Category" where
  "mkCategory r =
     \<lparr>Category = r ! 0, SubCategory = r ! 1, Category.CatID = r ! 2, CatShort = r ! 3,
      Synonyms = r ! 5\<rparr>"

text \<open>
  \<open>Categories\<close>: the records of six fields, in ascending order of \<open>CatID\<close> (the
  byte-wise order of Go strings). The indices of \<open>mkCategory\<close> are in range because
  of the length test.
\<close>

definition Categories :: "sys \<Rightarrow> error + Category list" where
  "Categories sys =
     (case csvFile sys of
        Inl err \<Rightarrow> Inl err
      | Inr rows \<Rightarrow>
          (case ReadAll rows of
             Inl err \<Rightarrow> Inl err
           | Inr records \<Rightarrow>
               Inr (sort_key Category.CatID
                      (map mkCategory (filter (\<lambda>r. length r = 6) records)))))"

section \<open>Package renamer\<close>

datatype requirement = required | optional

text \<open>
  The loop of \<open>promptField\<close>: each turn writes the prompt, reads a line and either
  accepts it or writes a complaint and goes round again. Every turn makes a new buffered
  reader; a terminal hands over one line for each read, so no input is lost between the
  turns. A read that finds no line fails with the end of input. A turn uses up one line, so
  the loop ends on every finite input.
\<close>

function promptLoop :: "string \<Rightarrow> requirement \<Rightarrow> world \<Rightarrow> (error + string) \<times> world" where
  "promptLoop fieldName req w =
     (let w1 = w\<lparr>stdout := stdout w @ [Text (fieldName @ '': '')]\<rparr> in
      case stdin w1 of
        [] \<Rightarrow> (Inl EOF, w1)
      | text # rest \<Rightarrow>
          (let w2 = w1\<lparr>stdin := rest\<rparr>;
               trimmed = TrimSpace text
           in if req = required \<and> trimmed = [] then
                promptLoop fieldName req
                  (w2\<lparr>stderr := stderr w2
                     @ [Text (''Invalid: '' @ fieldName @ '' is required\<newline>'')]\<rparr>)
              else if Contains trimmed ''_'' then
                promptLoop fieldName req
                  (w2\<lparr>stderr := stderr w2
                     @ [Text (''Invalid: value cannot contain \"_\", because it is the filename field delimiter\<newline>'')]\<rparr>)
              else (Inr (Join (Fields trimmed) ''-''), w2)))"
  by pat_completeness auto
termination
  by (relation "measure (\<lambda>(fieldName, req, w). length (stdin w))") auto

declare promptLoop.simps [simp del]

definition promptField ::
  "sys \<Rightarrow> string \<Rightarrow> requirement \<Rightarrow> string \<Rightarrow> world \<Rightarrow> (error + string) \<times> world" where
  "promptField sys fieldName req envOverrideVar w =
     (if envOverrideVar \<noteq> [] \<and> Getenv sys envOverrideVar \<noteq> []
      then (Inr (Getenv sys envOverrideVar), w)
      else promptLoop fieldName req w)"

text \<open>
  \<open>promptFields\<close>: the category id is shown, then the four remaining fields are
  asked for in order; an empty required field is an error.
\<close>

definition promptFields :: "sys \<Rightarrow> string \<Rightarrow> world \<Rightarrow> (error + Filename) \<times> world" where
  "promptFields sys catID w =
     (let w0 = w\<lparr>stdout := stdout w @ [Text (''CatID: '' @ catID @ ''\<newline>'')]\<rparr> in
      case promptField sys ''FXName'' required [] w0 of
        (Inl err, w1) \<Rightarrow> (Inl err, w1)
      | (Inr fxName, w1) \<Rightarrow>
          if fxName = [] then (Inl (FieldRequired ''FXName''), w1)
          else
            (case promptField sys ''CreatorID'' required ''UCS_CREATOR_ID'' w1 of
               (Inl err, w2) \<Rightarrow> (Inl err, w2)
             | (Inr creatorID, w2) \<Rightarrow>
                 if creatorID = [] then (Inl (FieldRequired ''CreatorID''), w2)
                 else
                   (case promptField sys ''SourceID'' required ''UCS_SOURCE_ID'' w2 of
                      (Inl err, w3) \<Rightarrow> (Inl err, w3)
                    | (Inr sourceID, w3) \<Rightarrow>
                        if sourceID = [] then (Inl (FieldRequired ''SourceID''), w3)
                        else
                          (case promptField sys ''UserData'' optional ''UCS_USER_DATA'' w3 of
                             (Inl err, w4) \<Rightarrow> (Inl err, w4)
                           | (Inr userData, w4) \<Rightarrow>
                               (Inr \<lparr>Filename.CatID = catID, FXName = fxName,
                                     CreatorID = creatorID, SourceID = sourceID,
                                     UserData = userData\<rparr>, w4)))))"

text \<open>
  \<open>fmt.Fscanf(r.Stdin, "%s", &confirm)\<close>: blanks before the word are skipped, a line
  feed is not; the word runs up to the next white space. Nothing is stored when the line
  feed comes first or the input has ended. What is left of the line stays unread; nothing
  reads after the confirmation, so the model drops the line.
\<close>

definition Fscan :: "string \<Rightarrow> string" where
  "Fscan line =
     takeWhile (\<lambda>c. \<not> isSpace c) (dropWhile (\<lambda>c. isSpace c \<and> c \<noteq> CHR 0x0A) line)"

text \<open>
  \<open>confirm\<close>: every branch of the switch returns, so the body of the \<open>for\<close>
  statement runs once. The prompt goes to the standard output of the process, which is the
  \<open>Stdout\<close> of the renamer that the command builds.
\<close>

definition confirm ::
  "string \<Rightarrow> (world \<Rightarrow> error option \<times> world) \<Rightarrow> world \<Rightarrow> error option \<times> world" where
  "confirm prompt yes w =
     (let w1 = w\<lparr>stdout := stdout w @ [Text (prompt @ '' (y/n) '')]\<rparr>;
          (confirm, w2) =
            (case stdin w1 of
               [] \<Rightarrow> ([], w1)
             | line # rest \<Rightarrow> (Fscan line, w1\<lparr>stdin := rest\<rparr>));
          lower = ToLower confirm
      in if lower = ''y'' \<or> lower = ''yes'' then yes w2
         else if lower = ''n'' \<or> lower = ''no'' then (None, w2)
         else (None, w2))"

definition validateCatID :: "sys \<Rightarrow> string \<Rightarrow> error option" where
  "validateCatID sys catID =
     (case Categories sys of
        Inl err \<Rightarrow> Some err
      | Inr categories \<Rightarrow>
          if list_ex (\<lambda>c. Category.CatID c = catID) categories then None
          else Some (UnknownCatID catID))"

text \<open>
  \<open>buildFilename\<close>: with \<open>UCS_CAT_ID\<close> set, the id is validated and used. Otherwise
  the selector runs; only an \<open>ExitError\<close> of \<open>cmd.Run\<close> is returned, any other
  error of it is dropped, and the first word of what the selector wrote, without trailing
  colons, is the category id. \<open>Split\<close> returns at least one piece, so the index 0 is
  in range. The selector talks to the user through the terminal device and takes nothing
  from the lines of standard input.
\<close>

definition buildFilename :: "sys \<Rightarrow> string \<Rightarrow> world \<Rightarrow> (error + Filename) \<times> world" where
  "buildFilename sys fzfExec w =
     (let catID = Getenv sys ''UCS_CAT_ID'' in
      if catID \<noteq> [] then
        (case validateCatID sys catID of
           Some err \<Rightarrow> (Inl err, w)
         | None \<Rightarrow> promptFields sys catID w)
      else
        (let w1 = w\<lparr>fzfRuns := fzfRuns w + 1\<rparr>;
             (err, out) = cmdRun sys fzfExec
         in case err of
              Some (ExitError n) \<Rightarrow> (Inl (ExitError n), w1)
            | _ \<Rightarrow>
                (let choice = TrimSpace out;
                     choiceSegs = Split choice CHR '' '';
                     catID = TrimRight (choiceSegs ! 0) '':''
                 in promptFields sys catID w1)))"

text \<open>
  \<open>filepath.Ext\<close>: the suffix of the last path element from its last dot on, empty
  without a dot. \<open>filepath.Base\<close>: the last path element, trailing slashes removed.
\<close>

definition Ext :: "string \<Rightarrow> string" where
  "Ext path =
     (let r = takeWhile (\<lambda>c. c \<noteq> CHR ''/'') (rev path)
      in if CHR ''.'' \<in> set r then CHR ''.'' # rev (takeWhile (\<lambda>c. c \<noteq> CHR ''.'') r)
         else [])"

definition Base :: "string \<Rightarrow> string" where
  "Base path =
     (if path = [] then ''.''
      else (let p = dropWhile (\<lambda>c. c = CHR ''/'') (rev path);
                b = rev (takeWhile (\<lambda>c. c \<noteq> CHR ''/'') p)
            in if b = [] then ''/'' else b))"

definition osRename :: "sys \<Rightarrow> string \<Rightarrow> string \<Rightarrow> world \<Rightarrow> error option \<times> world" where
  "osRename sys oldName newName w =
     (Rename sys oldName newName, w\<lparr>renames := renames w @ [(oldName, newName)]\<rparr>)"

text \<open>
  The verb \<open>%q\<close> of the confirmation prompt puts the name in double quotes; its escaping
  of quotes, backslashes and non-printing characters inside the name is left out.
\<close>

definition quoted :: "string \<Rightarrow> string" where
  "quoted s = [CHR 0x22] @ s @ [CHR 0x22]"

definition Run :: "sys \<Rightarrow> string \<Rightarrow> string \<Rightarrow> bool \<Rightarrow> world \<Rightarrow> error option \<times> world" where
  "Run sys fzfExec filename forceConfirm w =
     (case Stat sys filename of
        Inl err \<Rightarrow> (Some err, w)
      | Inr srcFileInfo \<Rightarrow>
          if IsDir srcFileInfo then (Some (IsADirectory (Name srcFileInfo)), w)
          else
            (let ext = Ext (Name srcFileInfo) in
             if ext = [] then (Some NoExtension, w)
             else
               (case buildFilename sys fzfExec w of
                  (Inl err, w1) \<Rightarrow> (Some err, w1)
                | (Inr f, w1) \<Rightarrow>
                    (let newName = Render f ext;
                         oldName = Base (Name srcFileInfo)
                     in if forceConfirm then osRename sys oldName newName w1
                        else confirm (''Rename '' @ quoted oldName @ '' to '' @ quoted newName @ ''?'')
                               (osRename sys oldName newName) w1))))"

section \<open>The command\<close>

text \<open>\<open>strconv.ParseBool\<close>, which reads the value of a boolean flag.\<close>

definition ParseBool :: "string \<Rightarrow> bool option" where
  "ParseBool s =
     (if s \<in> set [''1'', ''t'', ''T'', ''TRUE'', ''true'', ''True''] then Some True
      else if s \<in> set [''0'', ''f'', ''F'', ''FALSE'', ''false'', ''False''] then Some False
      else None)"

text \<open>
  \<open>FlagSet.Parse\<close> with \<open>flag.ContinueOnError\<close> for the flag set of the program,
  whose only flag is the boolean \<open>y\<close>. Parsing stops at the first argument that is
  not a flag and after \<open>--\<close>. A flag named \<open>h\<close> or \<open>help\<close> is the request
  for help, \<open>flag.ErrHelp\<close>; any other unknown flag, a malformed flag and a bad boolean
  value are errors of their own. The result is the value of \<open>y\<close> and the arguments left.
\<close>

fun Parse :: "string list \<Rightarrow> bool \<Rightarrow> error + bool \<times> string list" where
  "Parse [] forceConfirm = Inr (forceConfirm, [])"
| "Parse (s # rest) forceConfirm =
     (if 2 \<le> length s \<and> s ! 0 = CHR ''-'' then
        (if s = ''--'' then Inr (forceConfirm, rest)
         else
           (let name = (if s ! 1 = CHR ''-'' then drop 2 s else drop 1 s) in
            if name = [] \<or> name ! 0 = CHR ''-'' \<or> name ! 0 = CHR ''='' then Inl (BadFlagSyntax s)
            else
              (let hasValue = (CHR ''='' \<in> set (tl name));
                   val = (if hasValue then tl (dropWhile (\<lambda>c. c \<noteq> CHR ''='') (tl name)) else []);
                   name = (if hasValue then hd name # takeWhile (\<lambda>c. c \<noteq> CHR ''='') (tl name)
                           else name)
               in if name = ''y'' then
                    (if hasValue then
                       (case ParseBool val of
                          None \<Rightarrow> Inl (InvalidBoolean val name)
                        | Some b \<Rightarrow> Parse rest b)
                     else Parse rest True)
                  else if name = ''help'' \<or> name = ''h'' then Inl ErrHelp
                  else Inl (FlagNotDefined name))))
      else Inr (forceConfirm, s # rest))"

text \<open>\<open>FlagSet.Arg(0)\<close>: the first argument left, the empty string when there is none.\<close>

definition Arg0 :: "string list \<Rightarrow> string" where
  "Arg0 args = (case args of [] \<Rightarrow> [] | a # _ \<Rightarrow> a)"

definition printCategories :: "sys \<Rightarrow> world \<Rightarrow> error option \<times> world" where
  "printCategories sys w =
     (case Categories sys of
        Inl err \<Rightarrow> (Some err, w)
      | Inr categories \<Rightarrow>
          (None, w\<lparr>stdout := stdout w
             @ map (\<lambda>c. Text (Category.CatID c @ '': '' @ Category c @ '' '' @ SubCategory c
                               @ '' -- '' @ Synonyms c @ ''\<newline>'')) categories\<rparr>))"

text \<open>
  \<open>run\<close>. On a parse error package \<open>flag\<close> has already written to the error
  stream: the usage message for a request for help, the error and the usage message
  otherwise.
\<close>

definition run :: "sys \<Rightarrow> world \<Rightarrow> error option \<times> world" where
  "run sys w =
     (if \<not> IsTerminal sys then printCategories sys w
      else
        (case Parse (Args sys) False of
           Inl err \<Rightarrow>
             (Some err,
              w\<lparr>stderr := stderr w @ (if err = ErrHelp then [Usage] else [ErrorLine err, Usage])\<rparr>)
         | Inr (forceConfirm, args) \<Rightarrow>
             (let filename = Arg0 args in
              if filename = [] then (None, w\<lparr>stderr := stderr w @ [Usage]\<rparr>)
              else
                (case LookPath sys of
                   Inl err \<Rightarrow> (Some err, w)
                 | Inr fzfExec \<Rightarrow> Run sys fzfExec filename forceConfirm w))))"

text \<open>\<open>main\<close>: the exit status of the process and the world it leaves.\<close>

definition main :: "sys \<Rightarrow> world \<Rightarrow> nat \<times> world" where
  "main sys w =
     (case run sys w of
        (None, w1) \<Rightarrow> (0, w1)
      | (Some err, w1) \<Rightarrow>
          if err = ErrHelp then (2, w1)
          else (1, w1\<lparr>stderr := stderr w1 @ [ErrorLine err]\<rparr>))"

section \<open>The accepted value, in the words of the specification\<close>


section \<open>Sample surroundings\<close>

text \<open>
  A terminal that holds the given lines, with nothing written yet, and surroundings with
  the given environment and command line: standard output is a terminal, the catalog file
  has one record, the selector is found and answers with the entry of that record,
  every path is a plain file and renaming succeeds.
\<close>

definition terminal :: "string list \<Rightarrow> world" where
  "terminal lines = \<lparr>stdin = lines, stdout = [], stderr = [], fzfRuns = 0, renames = []\<rparr>"

definition surroundings :: "(string \<Rightarrow> string) \<Rightarrow> string list \<Rightarrow> sys" where
  "surroundings env args =
     \<lparr>Getenv = env, Args = args, IsTerminal = True,
      csvFile = Inr [[''AMBIENCE'', ''PARK'', ''AMBPark'', ''AMB'', [], ''park indoor outdoor'']],
      LookPath = Inr ''/usr/bin/fzf'',
      cmdRun = (\<lambda>_. (None, ''AMBPark: AMBIENCE PARK -- park indoor outdoor\<newline>'')),
      Stat = (\<lambda>name. Inr \<lparr>IsDir = False, Name = name\<rparr>),
      Rename = (\<lambda>_ _. None)\<rparr>"

definition noenv :: "string \<Rightarrow> string" where
  "noenv name = []"

text \<open>
  The same surroundings with no variable set and a selector that cannot be started:
  \<open>cmd.Run\<close> returns an error of the operating system and nothing has been written.
\<close>

definition unstartable :: sys where
  "unstartable =
     (surroundings noenv [])
       \<lparr>cmdRun := (\<lambda>_. (Some (OSError ''fork/exec /usr/bin/fzf: permission denied''), []))\<rparr>"

section \<open>Facts about the library functions\<close>


lemma Contains_single: "Contains s [c] \<longleftrightarrow> c \<in> set s"
  by (induction s) auto

lemma Join_chars: "set (Join xs sep) \<subseteq> (\<Union>x\<in>set xs. set x) \<union> set sep"
  by (induction xs sep rule: Join.induct) auto

lemma Fields_chars: "x \<in> set (Fields s) \<Longrightarrow> set x \<subseteq> set s"
proof (induction s arbitrary: x rule: Fields.induct)
  case (1 s)
  show ?case
  proof (cases "dropWhile isSpace s")
    case Nil
    with "1.prems" show ?thesis by (simp add: Fields.simps)
  next
    case (Cons c cs)
    let ?w = "takeWhile (\<lambda>x. \<not> isSpace x) (c # cs)"
    let ?r = "dropWhile (\<lambda>x. \<not> isSpace x) (c # cs)"
    have F: "Fields s = ?w # Fields ?r" using Cons by (subst Fields.simps) simp
    have sub: "set (c # cs) \<subseteq> set s" using Cons set_dropWhileD [of _ isSpace s] by auto
    from "1.prems" F have "x = ?w \<or> x \<in> set (Fields ?r)" by simp
    then show ?thesis
    proof
      assume "x = ?w"
      then have "set x \<subseteq> set (c # cs)" using set_takeWhileD [of _ "\<lambda>x. \<not> isSpace x" "c # cs"] by blast
      with sub show ?thesis by blast
    next
      assume "x \<in> set (Fields ?r)"
      then have "set x \<subseteq> set ?r" using "1.IH" [OF Cons] by blast
      moreover have "set ?r \<subseteq> set (c # cs)" using set_dropWhileD [of _ "\<lambda>x. \<not> isSpace x" "c # cs"] by blast
      ultimately show ?thesis using sub by blast
    qed
  qed
qed

lemma accepted_chars: "set (Join (Fields t) ''-'') \<subseteq> set t \<union> {CHR ''-''}"
  using Join_chars [of "Fields t" "''-''"] Fields_chars [of _ t] by auto

lemma promptLoop_no_delimiter:
  "promptLoop fieldName req w = (Inr v, w') \<Longrightarrow> CHR ''_'' \<notin> set v"
proof (induction fieldName req w rule: promptLoop.induct)
  case (1 fieldName req w)
  show ?case
  proof (cases "stdin w")
    case Nil
    with "1.prems" show ?thesis by (subst (asm) promptLoop.simps) simp
  next
    case (Cons ln rest)
    show ?thesis
      using "1.prems" "1.IH" Cons accepted_chars [of "TrimSpace ln"]
      apply (subst (asm) promptLoop.simps)
      apply (auto simp: Let_def Contains_single split: if_splits)
      done
  qed
qed



lemma Fields_Nil: "Fields [] = []"
  by (subst Fields.simps) simp





lemma TrimSpace_blank:
  assumes "list_all isSpace s"
  shows "TrimSpace s = []"
proof -
  have d: "dropWhile isSpace s = []" using assms by (simp add: list_all_iff)
  show ?thesis by (simp only: TrimSpace_def d rev.simps dropWhile.simps)
qed









lemma promptLoop_fzfRuns: "fzfRuns (snd (promptLoop fieldName req w)) = fzfRuns w"
proof (induction fieldName req w rule: promptLoop.induct)
  case (1 fieldName req w)
  show ?case
  proof (cases "stdin w")
    case Nil
    then show ?thesis by (subst promptLoop.simps) simp
  next
    case (Cons ln rest)
    then show ?thesis
      using "1.IH" by (subst promptLoop.simps) (simp add: Let_def)
  qed
qed

lemma promptField_fzfRuns:
  "fzfRuns (snd (promptField sys fieldName req envOverrideVar w)) = fzfRuns w"
  by (simp add: promptField_def promptLoop_fzfRuns)

lemma promptField_fzfRuns':
  "promptField sys fieldName req envOverrideVar w = (r, w') \<Longrightarrow> fzfRuns w' = fzfRuns w"
  using promptField_fzfRuns [of sys fieldName req envOverrideVar w] by simp

lemma promptFields_fzfRuns: "fzfRuns (snd (promptFields sys catID w)) = fzfRuns w"
  unfolding promptFields_def Let_def
  by (auto split: prod.splits sum.splits dest!: promptField_fzfRuns')

lemma promptFields_CatID:
  "promptFields sys catID w = (Inr f, w') \<Longrightarrow> Filename.CatID f = catID"
  unfolding promptFields_def Let_def
  by (auto split: prod.splits sum.splits if_splits)

lemma validateCatID_loaded:
  "Categories sys = Inr categories \<Longrightarrow>
   validateCatID sys catID
   = (if catID \<in> Category.CatID ` set categories then None else Some (UnknownCatID catID))"
  by (auto simp: validateCatID_def list_ex_iff)


lemma Categories_sample:
  "Categories (surroundings env args)
   = Inr [\<lparr>Category = ''AMBIENCE'', SubCategory = ''PARK'', Category.CatID = ''AMBPark'',
           CatShort = ''AMB'', Synonyms = ''park indoor outdoor''\<rparr>]"
  by (simp add: Categories_def surroundings_def ReadAll_def mkCategory_def)

lemma ReadAll_uniform:
  "list_all (\<lambda>r. length r = n) rows \<Longrightarrow> ReadAll rows = Inr rows"
  by (cases rows) (auto simp: ReadAll_def list_all_iff)

lemma Categories_uniform_rows:
  assumes "csvFile sys = Inr rows" and "list_all (\<lambda>r. length r = n) rows"
  shows "Categories sys
         = Inr (if n = 6 then sort_key Category.CatID (map mkCategory rows) else [])"
proof -
  have "filter (\<lambda>r. length r = 6) rows = (if n = 6 then rows else [])"
    using assms(2) by (auto simp: list_all_iff filter_empty_conv)
  then show ?thesis
    using assms(1) ReadAll_uniform [OF assms(2)] by (simp add: Categories_def)
qed

lemma ReadAll_mixed:
  "r' \<in> set rows \<Longrightarrow> length r' \<noteq> length r \<Longrightarrow> ReadAll (r # rows) = Inl ErrFieldCount"
  by (auto simp: ReadAll_def list_all_iff)


lemma buildFilename_selector_exit:
  assumes "Getenv sys ''UCS_CAT_ID'' = []" and "cmdRun sys fzfExec = (Some (ExitError n), out)"
  shows "buildFilename sys fzfExec w = (Inl (ExitError n), w\<lparr>fzfRuns := fzfRuns w + 1\<rparr>)"
  using assms by (simp add: buildFilename_def)


lemma buildFilename_selector_other:
  assumes "Getenv sys ''UCS_CAT_ID'' = []" and "cmdRun sys fzfExec = (err, out)"
    and "\<And>n. err \<noteq> Some (ExitError n)"
  shows "buildFilename sys fzfExec w
         = promptFields sys (TrimRight (Split (TrimSpace out) CHR '' '' ! 0) '':'')
             (w\<lparr>fzfRuns := fzfRuns w + 1\<rparr>)"
proof (cases err)
  case None
  then show ?thesis using assms(1,2) by (simp add: buildFilename_def)
next
  case (Some e)
  then show ?thesis using assms by (cases e) (simp_all add: buildFilename_def)
qed

lemma Split_nonempty: "Split s sep \<noteq> []"
  by (induction s) (auto split: list.splits)

lemma Split_no_sep: "sep \<notin> set s \<Longrightarrow> Split s sep = [s]"
  by (induction s) auto

lemma Split_piece: "sep \<notin> set a \<Longrightarrow> Split (a @ sep # b) sep = a # Split b sep"
  by (induction a) (auto split: list.splits)

lemma Split_Join:
  "xs \<noteq> [] \<Longrightarrow> \<forall>x\<in>set xs. sep \<notin> set x \<Longrightarrow> Split (Join xs [sep]) sep = xs"
proof (induction xs "[sep]" rule: Join.induct)
  case 1
  then show ?case by simp
next
  case (2 x)
  then show ?case by (simp add: Split_no_sep)
next
  case (3 x y ys)
  then show ?case by (simp add: Split_piece)
qed

text \<open>
  When no segment holds the underscore, splitting the rendered body at the underscores
  gives the segments back: the body then has exactly as many pieces as segments were joined.
\<close>

lemma Render_Split:
  assumes "\<forall>x\<in>set (segs f). CHR ''_'' \<notin> set x"
  shows "Split (Join (segs f) ''_'') CHR ''_'' = segs f"
proof -
  have "segs f \<noteq> []" by (simp add: segs_def Let_def)
  then show ?thesis using assms Split_Join [of "segs f" "CHR ''_''"] by simp
qed

section \<open>The rendered filename\<close>

text \<open>
  Claim C1. For every filename value and every extension, \<open>Render\<close> joins the category
  id, the effect name, the creator id and the source id with underscores in that order, adds
  an underscore and the user data only when the user data is not empty, and puts the
  extension right after, with nothing in between. The list of segments that is joined has
  five entries when the user data is not empty and four when it is empty.
\<close>

theorem Render_layout:
  "Render f ext = Join (segs f) ''_'' @ ext
   \<and> segs f = [Filename.CatID f, FXName f, CreatorID f, SourceID f]
              @ (if UserData f = [] then [] else [UserData f])
   \<and> length (segs f) = (if UserData f = [] then 4 else 5)
   \<and> Render f ext =
       Filename.CatID f @ ''_'' @ FXName f @ ''_'' @ CreatorID f @ ''_'' @ SourceID f
       @ (if UserData f = [] then [] else ''_'' @ UserData f) @ ext"
  by (simp add: Render_def segs_def)

section \<open>The field prompt\<close>

text \<open>
  Claim C5. For a field with an override name whose environment variable is set and not
  empty, \<open>promptField\<close> returns the value of the variable as it is and leaves the world
  as it was: no prompt is written, no line is read, and the value is neither trimmed nor
  checked for the underscore nor hyphenated.
\<close>

theorem promptField_override:
  assumes "envOverrideVar \<noteq> []" and "Getenv sys envOverrideVar \<noteq> []"
  shows "promptField sys fieldName req envOverrideVar w = (Inr (Getenv sys envOverrideVar), w)"
  using assms by (simp add: promptField_def)

theorem promptField_override_witness:
  "''UCS_CREATOR_ID'' \<noteq> []
   \<and> Getenv (surroundings (noenv(''UCS_CREATOR_ID'' := '' my_id  x '')) []) ''UCS_CREATOR_ID'' \<noteq> []
   \<and> promptField (surroundings (noenv(''UCS_CREATOR_ID'' := '' my_id  x '')) [])
        ''CreatorID'' required ''UCS_CREATOR_ID'' (terminal [''Buddin\<newline>''])
      = (Inr '' my_id  x '', terminal [''Buddin\<newline>''])"
proof -
  let ?sys = "surroundings (noenv(''UCS_CREATOR_ID'' := '' my_id  x '')) []"
  have a: "''UCS_CREATOR_ID'' \<noteq> []" by simp
  have b: "Getenv ?sys ''UCS_CREATOR_ID'' \<noteq> []" by (simp add: surroundings_def)
  have c: "Getenv ?sys ''UCS_CREATOR_ID'' = '' my_id  x ''" by (simp add: surroundings_def)
  show ?thesis
    using promptField_override [OF a b, of "''CreatorID''" required "terminal [''Buddin\<newline>'']"] a b c
    by simp
qed

text \<open>
  Claim C3. When no override applies and the trimmed line holds an underscore, the loop does
  not accept the line: it writes the complaint about the delimiter to the error stream and
  carries on as the same prompt on the lines that are left. No value that the prompt
  accepts holds an underscore, for a required field and for an optional one.
\<close>

theorem promptField_rejects_delimiter:
  assumes "envOverrideVar = [] \<or> Getenv sys envOverrideVar = []"
    and "stdin w = ln # rest"
    and "CHR ''_'' \<in> set (TrimSpace ln)"
  shows "promptField sys fieldName req envOverrideVar w
         = promptField sys fieldName req envOverrideVar
             (w\<lparr>stdout := stdout w @ [Text (fieldName @ '': '')],
                stdin := rest,
                stderr := stderr w
                  @ [Text (''Invalid: value cannot contain \"_\", because it is the filename field delimiter\<newline>'')]\<rparr>)
         \<and> (\<forall>w0 v w'. promptField sys fieldName req envOverrideVar w0 = (Inr v, w')
                \<longrightarrow> CHR ''_'' \<notin> set v)"
proof -
  have ne: "TrimSpace ln \<noteq> []" using assms(3) by auto
  have step: "promptLoop fieldName req w
        = promptLoop fieldName req
             (w\<lparr>stdout := stdout w @ [Text (fieldName @ '': '')],
                stdin := rest,
                stderr := stderr w
                  @ [Text (''Invalid: value cannot contain \"_\", because it is the filename field delimiter\<newline>'')]\<rparr>)"
    using assms(2,3) ne by (subst promptLoop.simps) (simp add: Let_def Contains_single)
  have "\<And>w0 v w'. promptField sys fieldName req envOverrideVar w0 = (Inr v, w')
          \<Longrightarrow> CHR ''_'' \<notin> set v"
    using assms(1) promptLoop_no_delimiter by (auto simp: promptField_def)
  with step assms(1) show ?thesis by (auto simp: promptField_def)
qed

theorem promptField_rejects_delimiter_witness:
  "promptField (surroundings noenv []) ''FXName'' required []
     (terminal ['' rain_heavy \<newline>'', ''Rain Heavy\<newline>''])
   = (Inr ''Rain-Heavy'',
      (terminal [])\<lparr>stdout := [Text ''FXName: '', Text ''FXName: ''],
        stderr := [Text (''Invalid: value cannot contain \"_\", because it is the filename field delimiter\<newline>'')]\<rparr>)
   \<and> CHR ''_'' \<in> set (TrimSpace '' rain_heavy \<newline>'')"
proof -
  let ?ln = "'' rain_heavy \<newline>''"
  let ?w = "terminal [?ln, ''Rain Heavy\<newline>'']"
  have T: "TrimSpace ?ln = ''rain_heavy''" by (simp add: TrimSpace_def isSpace_def)
  have a: "[] = [] \<or> Getenv (surroundings noenv []) [] = []" by simp
  have b: "stdin ?w = ?ln # [''Rain Heavy\<newline>'']" by (simp add: terminal_def)
  have c: "CHR ''_'' \<in> set (TrimSpace ?ln)" by (simp add: T)
  have T2: "TrimSpace ''Rain Heavy\<newline>'' = ''Rain Heavy''" by (simp add: TrimSpace_def isSpace_def)
  have F: "Fields ''Rain Heavy'' = [''Rain'', ''Heavy'']" by (simp add: Fields.simps isSpace_def)
  show ?thesis
    using promptField_rejects_delimiter [OF a b c, of "''FXName''" required] c
    by (simp add: terminal_def promptField_def promptLoop.simps T2 F)
qed



text \<open>
  Claim C9. When \<open>UCS_USER_DATA\<close> is not set and the line read for the optional user
  data is white space only, the empty string is accepted at once, after one prompt and
  without a complaint, and a filename with that user data is rendered as the four required
  segments and the extension.
\<close>

theorem optional_blank_line_omitted:
  assumes "Getenv sys ''UCS_USER_DATA'' = []"
    and "stdin w = ln # rest"
    and "list_all isSpace ln"
  shows "promptField sys ''UserData'' optional ''UCS_USER_DATA'' w
         = (Inr [], w\<lparr>stdout := stdout w @ [Text ''UserData: ''], stdin := rest\<rparr>)
         \<and> (\<forall>f ext. Inr (UserData f) = fst (promptField sys ''UserData'' optional ''UCS_USER_DATA'' w)
               \<longrightarrow> Render f ext
                   = Filename.CatID f @ ''_'' @ FXName f @ ''_'' @ CreatorID f @ ''_''
                     @ SourceID f @ ext)"
proof -
  have T: "TrimSpace ln = []" using assms(3) by (rule TrimSpace_blank)
  have "promptLoop ''UserData'' optional w
        = (Inr [], w\<lparr>stdout := stdout w @ [Text ''UserData: ''], stdin := rest\<rparr>)"
    using assms(2) T by (subst promptLoop.simps) (simp add: Let_def Fields_Nil)
  then have 1: "promptField sys ''UserData'' optional ''UCS_USER_DATA'' w
         = (Inr [], w\<lparr>stdout := stdout w @ [Text ''UserData: ''], stdin := rest\<rparr>)"
    using assms(1) by (simp add: promptField_def)
  show ?thesis
    unfolding 1 by (simp add: Render_def segs_def)
qed

theorem optional_blank_line_omitted_witness:
  "promptField (surroundings noenv []) ''UserData'' optional ''UCS_USER_DATA''
     (terminal [''  \<newline>'', ''y\<newline>''])
   = (Inr [], (terminal [''y\<newline>''])\<lparr>stdout := [Text ''UserData: '']\<rparr>)
   \<and> Render \<lparr>Filename.CatID = ''AMBPark'', FXName = ''Rain'', CreatorID = ''Buddin'',
              SourceID = ''Phonogrifter'', UserData = []\<rparr> ''.wav''
     = ''AMBPark_Rain_Buddin_Phonogrifter.wav''"
proof -
  let ?sys = "surroundings noenv []"
  let ?w = "terminal [''  \<newline>'', ''y\<newline>'']"
  let ?f = "\<lparr>Filename.CatID = ''AMBPark'', FXName = ''Rain'', CreatorID = ''Buddin'',
              SourceID = ''Phonogrifter'', UserData = []\<rparr>"
  have a: "Getenv ?sys ''UCS_USER_DATA'' = []" by (simp add: surroundings_def noenv_def)
  have b: "stdin ?w = ''  \<newline>'' # [''y\<newline>'']" by (simp add: terminal_def)
  have c: "list_all isSpace ''  \<newline>''" by (simp add: isSpace_def)
  note t = optional_blank_line_omitted [OF a b c]
  from t have 1: "promptField ?sys ''UserData'' optional ''UCS_USER_DATA'' ?w
         = (Inr [], ?w\<lparr>stdout := stdout ?w @ [Text ''UserData: ''], stdin := [''y\<newline>'']\<rparr>)"
    by blast
  from t have "Inr (UserData ?f) = fst (promptField ?sys ''UserData'' optional ''UCS_USER_DATA'' ?w)
               \<longrightarrow> Render ?f ''.wav''
                   = Filename.CatID ?f @ ''_'' @ FXName ?f @ ''_'' @ CreatorID ?f @ ''_''
                     @ SourceID ?f @ ''.wav''"
    by blast
  with 1 have 2: "Render ?f ''.wav'' = ''AMBPark_Rain_Buddin_Phonogrifter.wav''" by simp
  from 1 2 show ?thesis by (simp add: terminal_def)
qed

section \<open>The confirmation\<close>


section \<open>The category id\<close>

text \<open>
  Claim C6. With \<open>UCS_CAT_ID\<close> set to a value that is not empty and a catalog that
  loads: when no entry of the catalog has that id, \<open>buildFilename\<close> fails with the
  unknown-category error and the world is untouched (the selector has not run, nothing is
  written, no line is read); when an entry has it, the selector does not run either and the
  fields are prompted for with that id, which is the category id of the filename built.
\<close>

theorem buildFilename_override:
  assumes "Getenv sys ''UCS_CAT_ID'' = catID" and "catID \<noteq> []"
    and "Categories sys = Inr categories"
  shows "(catID \<notin> Category.CatID ` set categories \<longrightarrow>
            buildFilename sys fzfExec w = (Inl (UnknownCatID catID), w))
       \<and> (catID \<in> Category.CatID ` set categories \<longrightarrow>
            buildFilename sys fzfExec w = promptFields sys catID w
            \<and> fzfRuns (snd (buildFilename sys fzfExec w)) = fzfRuns w
            \<and> (\<forall>f w'. buildFilename sys fzfExec w = (Inr f, w') \<longrightarrow> Filename.CatID f = catID))"
proof -
  have b: "buildFilename sys fzfExec w
        = (case validateCatID sys catID of
             Some err \<Rightarrow> (Inl err, w)
           | None \<Rightarrow> promptFields sys catID w)"
    using assms(1,2) by (simp add: buildFilename_def Let_def)
  show ?thesis
    unfolding b validateCatID_loaded [OF assms(3)]
    using promptFields_fzfRuns [of sys catID w] promptFields_CatID [of sys catID w]
    by simp
qed


theorem buildFilename_override_witness:
  "buildFilename (surroundings (noenv(''UCS_CAT_ID'' := ''AMBNope'')) []) ''/usr/bin/fzf''
     (terminal [''Rain\<newline>''])
   = (Inl (UnknownCatID ''AMBNope''), terminal [''Rain\<newline>''])
   \<and> buildFilename (surroundings (noenv(''UCS_CAT_ID'' := ''AMBPark'')) []) ''/usr/bin/fzf''
       (terminal [''Rain\<newline>'', ''Buddin\<newline>'', ''Phonogrifter\<newline>'', ''\<newline>''])
     = (Inr \<lparr>Filename.CatID = ''AMBPark'', FXName = ''Rain'', CreatorID = ''Buddin'',
              SourceID = ''Phonogrifter'', UserData = []\<rparr>,
        (terminal [])\<lparr>stdout := [Text ''CatID: AMBPark\<newline>'', Text ''FXName: '',
                               Text ''CreatorID: '', Text ''SourceID: '', Text ''UserData: '']\<rparr>)"
proof -
  let ?bad = "surroundings (noenv(''UCS_CAT_ID'' := ''AMBNope'')) []"
  let ?good = "surroundings (noenv(''UCS_CAT_ID'' := ''AMBPark'')) []"
  let ?cats = "[\<lparr>Category = ''AMBIENCE'', SubCategory = ''PARK'', Category.CatID = ''AMBPark'',
           CatShort = ''AMB'', Synonyms = ''park indoor outdoor''\<rparr>]"
  let ?w = "terminal [''Rain\<newline>'', ''Buddin\<newline>'', ''Phonogrifter\<newline>'', ''\<newline>'']"
  have a1: "Getenv ?bad ''UCS_CAT_ID'' = ''AMBNope''" by (simp add: surroundings_def)
  have a2: "Getenv ?good ''UCS_CAT_ID'' = ''AMBPark''" by (simp add: surroundings_def)
  have n1: "''AMBNope'' \<noteq> []" and n2: "''AMBPark'' \<noteq> []" by simp_all
  have m1: "''AMBNope'' \<notin> Category.CatID ` set ?cats" by simp
  have m2: "''AMBPark'' \<in> Category.CatID ` set ?cats" by simp
  have 1: "buildFilename ?bad ''/usr/bin/fzf'' (terminal [''Rain\<newline>''])
           = (Inl (UnknownCatID ''AMBNope''), terminal [''Rain\<newline>''])"
    using buildFilename_override [OF a1 n1 Categories_sample, of "''/usr/bin/fzf''" "terminal [''Rain\<newline>'']"] m1
    by blast
  have 2: "buildFilename ?good ''/usr/bin/fzf'' ?w = promptFields ?good ''AMBPark'' ?w"
    using buildFilename_override [OF a2 n2 Categories_sample, of "''/usr/bin/fzf''" ?w] m2
    by blast
  have g: "Getenv ?good = noenv(''UCS_CAT_ID'' := ''AMBPark'')" by (simp add: surroundings_def)
  have T: "TrimSpace ''Rain\<newline>'' = ''Rain''" "TrimSpace ''Buddin\<newline>'' = ''Buddin''"
    "TrimSpace ''Phonogrifter\<newline>'' = ''Phonogrifter''" "TrimSpace ''\<newline>'' = []"
    by (simp_all add: TrimSpace_def isSpace_def)
  have F: "Fields ''Rain'' = [''Rain'']" "Fields ''Buddin'' = [''Buddin'']"
    "Fields ''Phonogrifter'' = [''Phonogrifter'']" "Fields [] = []"
    by (simp_all add: Fields.simps isSpace_def)
  have 3: "promptFields ?good ''AMBPark'' ?w
     = (Inr \<lparr>Filename.CatID = ''AMBPark'', FXName = ''Rain'', CreatorID = ''Buddin'',
              SourceID = ''Phonogrifter'', UserData = []\<rparr>,
        (terminal [])\<lparr>stdout := [Text ''CatID: AMBPark\<newline>'', Text ''FXName: '',
                               Text ''CreatorID: '', Text ''SourceID: '', Text ''UserData: '']\<rparr>)"
    by (simp add: promptFields_def promptField_def g noenv_def terminal_def promptLoop.simps T F)
  from 1 2 3 show ?thesis by simp
qed

text \<open>
  Claim C2. The claim asks that an empty choice of the selector fails before any field is
  asked for. Evaluated on a selector that cannot be started and so writes nothing, the
  code drops the error, which is not an \<open>ExitError\<close>, and goes on with the empty
  category id: it prompts for the four fields, builds a filename whose category id is empty,
  and \<open>Run\<close> renames the file to a name that starts with the underscore.
\<close>

theorem buildFilename_empty_choice:
  "buildFilename unstartable ''/usr/bin/fzf''
     (terminal [''Rain\<newline>'', ''Buddin\<newline>'', ''Phonogrifter\<newline>'', ''\<newline>''])
   = (Inr \<lparr>Filename.CatID = [], FXName = ''Rain'', CreatorID = ''Buddin'',
            SourceID = ''Phonogrifter'', UserData = []\<rparr>,
      (terminal [])\<lparr>stdout := [Text ''CatID: \<newline>'', Text ''FXName: '', Text ''CreatorID: '',
                             Text ''SourceID: '', Text ''UserData: ''],
                    fzfRuns := 1\<rparr>)
   \<and> Run unstartable ''/usr/bin/fzf''
       ''rain.wav'' True
       (terminal [''Rain\<newline>'', ''Buddin\<newline>'', ''Phonogrifter\<newline>'', ''\<newline>''])
     = (None,
        (terminal [])\<lparr>stdout := [Text ''CatID: \<newline>'', Text ''FXName: '', Text ''CreatorID: '',
                               Text ''SourceID: '', Text ''UserData: ''],
                      fzfRuns := 1,
                      renames := [(''rain.wav'', ''_Rain_Buddin_Phonogrifter.wav'')]\<rparr>)"
proof -
  let ?sys = unstartable
  let ?w = "terminal [''Rain\<newline>'', ''Buddin\<newline>'', ''Phonogrifter\<newline>'', ''\<newline>'']"
  let ?f = "\<lparr>Filename.CatID = [], FXName = ''Rain'', CreatorID = ''Buddin'',
            SourceID = ''Phonogrifter'', UserData = []\<rparr>"
  let ?w' = "(terminal [])\<lparr>stdout := [Text ''CatID: \<newline>'', Text ''FXName: '', Text ''CreatorID: '',
                             Text ''SourceID: '', Text ''UserData: ''],
                    fzfRuns := 1\<rparr>"
  have T: "TrimSpace ''Rain\<newline>'' = ''Rain''" "TrimSpace ''Buddin\<newline>'' = ''Buddin''"
    "TrimSpace ''Phonogrifter\<newline>'' = ''Phonogrifter''" "TrimSpace ''\<newline>'' = []"
    "TrimSpace [] = []"
    by (simp_all add: TrimSpace_def isSpace_def)
  have F: "Fields ''Rain'' = [''Rain'']" "Fields ''Buddin'' = [''Buddin'']"
    "Fields ''Phonogrifter'' = [''Phonogrifter'']" "Fields [] = []"
    by (simp_all add: Fields.simps isSpace_def)
  have b: "buildFilename ?sys ''/usr/bin/fzf'' ?w = (Inr ?f, ?w')"
    by (simp add: buildFilename_def unstartable_def surroundings_def noenv_def TrimRight_def
        promptFields_def promptField_def terminal_def promptLoop.simps T F)
  have "Run ?sys ''/usr/bin/fzf'' ''rain.wav'' True ?w
        = osRename ?sys (Base ''rain.wav'') (Render ?f (Ext ''rain.wav'')) ?w'"
    unfolding Run_def b by (simp add: unstartable_def surroundings_def Ext_def Let_def)
  then have "Run ?sys ''/usr/bin/fzf'' ''rain.wav'' True ?w
        = (None, ?w'\<lparr>renames := [(''rain.wav'', ''_Rain_Buddin_Phonogrifter.wav'')]\<rparr>)"
    by (simp add: osRename_def Base_def Ext_def Render_def segs_def unstartable_def
        surroundings_def terminal_def)
  with b show ?thesis by simp
qed

section \<open>The catalog\<close>

text \<open>
  Claim C8. The claim asks that a record whose number of fields is not six is skipped and
  never fails the load. Evaluated on a file with a record of six fields followed by a
  record of one field, \<open>Categories\<close> fails with the field-count error of the reader,
  which has required the number of fields of the first record of every record.
\<close>

theorem Categories_mixed_rows_fail:
  "Categories ((surroundings noenv [])\<lparr>csvFile :=
       Inr [[''AMBIENCE'', ''PARK'', ''AMBPark'', ''AMB'', [], ''park indoor outdoor''],
            [''end of list'']]\<rparr>)
   = Inl ErrFieldCount"
  by (simp add: Categories_def ReadAll_def)

section \<open>The exit status\<close>

text \<open>
  Claim C7, as claimed: every flag parse error makes the process exit with status 2. It
  fails on the undefined flag \<open>-x\<close>: the parser returns an error that is not
  \<open>flag.ErrHelp\<close>, and \<open>main\<close> prints it and exits with status 1.
\<close>

theorem main_flag_error_counterexample:
  "Parse [''-x'', ''rain.wav''] False = Inl (FlagNotDefined ''x'')
   \<and> main (surroundings noenv [''-x'', ''rain.wav'']) (terminal [])
     = (1, (terminal [])\<lparr>stderr := [ErrorLine (FlagNotDefined ''x''), Usage,
                                     ErrorLine (FlagNotDefined ''x'')]\<rparr>)
   \<and> fst (main (surroundings noenv [''-x'', ''rain.wav'']) (terminal [])) \<noteq> 2"
  by (simp add: main_def run_def surroundings_def terminal_def)

text \<open>
  Claim C7, amended. On a terminal, a command line without a positional argument prints the
  usage message and the process exits with status 0. A request for help, which the parser
  reports as \<open>flag.ErrHelp\<close>, exits with status 2 and the error is not printed again.
  Every other error of \<open>run\<close>, every other flag parse error included, is printed to
  the error stream and the process exits with status 1. Without an error the status is 0.
\<close>

theorem main_exit_status:
  "(IsTerminal sys \<and> Parse (Args sys) False = Inr (forceConfirm, args) \<and> Arg0 args = []
      \<longrightarrow> main sys w = (0, w\<lparr>stderr := stderr w @ [Usage]\<rparr>))
   \<and> (IsTerminal sys \<and> Parse (Args sys) False = Inl ErrHelp
      \<longrightarrow> main sys w = (2, w\<lparr>stderr := stderr w @ [Usage]\<rparr>))
   \<and> (IsTerminal sys \<and> Parse (Args sys) False = Inl err \<and> err \<noteq> ErrHelp
      \<longrightarrow> main sys w = (1, w\<lparr>stderr := stderr w @ [ErrorLine err, Usage, ErrorLine err]\<rparr>))
   \<and> (run sys w = (None, w1) \<longrightarrow> main sys w = (0, w1))
   \<and> (run sys w = (Some ErrHelp, w1) \<longrightarrow> main sys w = (2, w1))
   \<and> (run sys w = (Some err, w1) \<and> err \<noteq> ErrHelp
      \<longrightarrow> main sys w = (1, w1\<lparr>stderr := stderr w1 @ [ErrorLine err]\<rparr>))"
  by (simp add: main_def run_def)

theorem main_exit_status_witness:
  "main (surroundings noenv [''-y'']) (terminal []) = (0, (terminal [])\<lparr>stderr := [Usage]\<rparr>)
   \<and> run (surroundings noenv [''-y'']) (terminal []) = (None, (terminal [])\<lparr>stderr := [Usage]\<rparr>)
   \<and> main (surroundings noenv [''-help'']) (terminal []) = (2, (terminal [])\<lparr>stderr := [Usage]\<rparr>)
   \<and> run (surroundings noenv [''-help'']) (terminal [])
     = (Some ErrHelp, (terminal [])\<lparr>stderr := [Usage]\<rparr>)
   \<and> main (surroundings noenv [''-y=maybe'', ''rain.wav'']) (terminal [])
     = (1, (terminal [])\<lparr>stderr := [ErrorLine (InvalidBoolean ''maybe'' ''y''), Usage,
                                     ErrorLine (InvalidBoolean ''maybe'' ''y'')]\<rparr>)
   \<and> main ((surroundings noenv [''rain.wav''])\<lparr>Stat := (\<lambda>_. Inl (OSError ''no such file''))\<rparr>)
        (terminal [])
     = (1, (terminal [])\<lparr>stderr := [ErrorLine (OSError ''no such file'')]\<rparr>)"
proof -
  let ?w = "terminal []"
  let ?u = "?w\<lparr>stderr := stderr ?w @ [Usage]\<rparr>"
  let ?s1 = "surroundings noenv [''-y'']"
  let ?s2 = "surroundings noenv [''-help'']"
  let ?s3 = "surroundings noenv [''-y=maybe'', ''rain.wav'']"
  let ?s4 = "(surroundings noenv [''rain.wav''])\<lparr>Stat := (\<lambda>_. Inl (OSError ''no such file''))\<rparr>"
  have 1: "IsTerminal ?s1 \<and> Parse (Args ?s1) False = Inr (True, []) \<and> Arg0 [] = []"
    by (simp add: surroundings_def Arg0_def)
  have 2: "IsTerminal ?s2 \<and> Parse (Args ?s2) False = Inl ErrHelp"
    by (simp add: surroundings_def)
  have 3: "IsTerminal ?s3 \<and> Parse (Args ?s3) False = Inl (InvalidBoolean ''maybe'' ''y'')
           \<and> InvalidBoolean ''maybe'' ''y'' \<noteq> ErrHelp"
    by (simp add: surroundings_def ParseBool_def)
  have 4: "run ?s4 ?w = (Some (OSError ''no such file''), ?w) \<and> OSError ''no such file'' \<noteq> ErrHelp"
    by (simp add: run_def surroundings_def Arg0_def Run_def)
  have 5: "run ?s1 ?w = (None, ?u)"
    by (simp add: run_def surroundings_def Arg0_def)
  have 6: "run ?s2 ?w = (Some ErrHelp, ?u)"
    by (simp add: run_def surroundings_def)
  have r1: "main ?s1 ?w = (0, ?u)"
    using main_exit_status [of ?s1 True "[]" ?w] 1 by blast
  have r2: "main ?s2 ?w = (2, ?u)"
    using main_exit_status [of ?s2 _ _ ?w] 2 by blast
  have r3: "main ?s3 ?w = (1, ?w\<lparr>stderr := stderr ?w @ [ErrorLine (InvalidBoolean ''maybe'' ''y''),
              Usage, ErrorLine (InvalidBoolean ''maybe'' ''y'')]\<rparr>)"
    using main_exit_status [of ?s3 _ _ ?w "InvalidBoolean ''maybe'' ''y''"] 3 by blast
  have r4: "main ?s4 ?w = (1, ?w\<lparr>stderr := stderr ?w @ [ErrorLine (OSError ''no such file'')]\<rparr>)"
    using main_exit_status [of ?s4 _ _ ?w "OSError ''no such file''" ?w] 4 by blast
  have r5: "main ?s1 ?w = (0, ?u)"
    using main_exit_status [of ?s1 _ _ ?w _ ?u] 5 by blast
  have r6: "main ?s2 ?w = (2, ?u)"
    using main_exit_status [of ?s2 _ _ ?w _ ?u] 6 by blast
  from r1 r2 r3 r4 r5 r6 5 6 show ?thesis by (simp add: terminal_def)
qed

end
